theory Spec2Isabelle
  imports Complex_Main "HOL-Library.Log_Nat" "HOL-Library.Word"
begin

section \<open>Numbers and arrays\<close>

text \<open>
  The envelope calculators of \<^verbatim>\<open>envelopes.py\<close> work on numpy arrays, which hold int64 or
  float64 numbers according to what the caller passes. A finite double is a rational
  number, so a float64 element is a \<^typ>\<open>rat\<close>, and every float operation of the source
  is the exact operation followed by rounding to the nearest double, ties to even
  (\<open>round_double\<close>). Infinities, NaN and the sign of zero have no counterpart here, and
  a result beyond the largest finite double is not turned into an infinity. An int64
  element is a \<^typ>\<open>64 word\<close>: its arithmetic wraps around, and \<open>sint\<close> reads its value.
\<close>

definition round_even :: "rat \<Rightarrow> int" where
  "round_even q =
     (let f = \<lfloor>q\<rfloor>; r = q - of_int f
      in if r < 1 / 2 then f else if 1 / 2 < r then f + 1 else if even f then f else f + 1)"

text \<open>\<open>ilog2 q\<close> is the binary exponent of a positive \<open>q\<close>: \<open>2 ^ ilog2 q \<le> q < 2 ^ (ilog2 q + 1)\<close>.\<close>

definition ilog2 :: "rat \<Rightarrow> int" where
  "ilog2 q = (if 1 \<le> q then bitlen \<lfloor>q\<rfloor> - 1 else - bitlen (\<lceil>1 / q\<rceil> - 1))"

text \<open>
  A double has 53 significant bits; below \<open>2 ^ - 1022\<close> the spacing stays \<open>2 ^ - 1074\<close>
  (subnormal numbers).
\<close>

definition round_double :: "rat \<Rightarrow> rat" where
  "round_double y =
     (if y = 0 then 0
      else let e = max (ilog2 \<bar>y\<bar> - 52) (- 1074)
           in of_int (round_even (y / 2 powi e)) * 2 powi e)"

definition fadd :: "rat \<Rightarrow> rat \<Rightarrow> rat" where
  "fadd a b = round_double (a + b)"

definition fsub :: "rat \<Rightarrow> rat \<Rightarrow> rat" where
  "fsub a b = round_double (a - b)"

definition fmul :: "rat \<Rightarrow> rat \<Rightarrow> rat" where
  "fmul a b = round_double (a * b)"

definition fdiv :: "rat \<Rightarrow> rat \<Rightarrow> rat" where
  "fdiv a b = round_double (a / b)"

text \<open>The constant \<^verbatim>\<open>10**-9\<close> of \<^verbatim>\<open>planar_daylight\<close>: the double nearest to \<open>1 / 10 ^ 9\<close>.\<close>

definition eps :: rat where
  "eps = round_double (1 / 10 ^ 9)"

text \<open>The finite doubles are the numbers that rounding leaves alone, up to the largest one.\<close>

definition is_double :: "rat \<Rightarrow> bool" where
  "is_double x \<longleftrightarrow> round_double x = x \<and> \<bar>x\<bar> < 2 ^ 1024"

text \<open>Where an int64 meets a float, numpy converts it to the nearest double.\<close>

definition to_double :: "64 word \<Rightarrow> rat" where
  "to_double w = round_double (of_int (sint w))"

text \<open>A one-dimensional array has one element type.\<close>

datatype ndarray = I64 "64 word list" | F64 "rat list"

fun len :: "ndarray \<Rightarrow> nat" where
  "len (I64 ws) = length ws"
| "len (F64 xs) = length xs"

text \<open>\<^verbatim>\<open>a.astype(float)\<close>: the elements as doubles.\<close>

fun as_float :: "ndarray \<Rightarrow> rat list" where
  "as_float (I64 ws) = map to_double ws"
| "as_float (F64 xs) = xs"

text \<open>
  An argument or a returned value is a Python integer (one that numpy stores as int64),
  a Python float, or a one-dimensional sequence of numbers (a list or an array: the two
  are not told apart).
\<close>

datatype pyval = Int_num "64 word" | Float_num rat | Arr ndarray

fun atleast_1d :: "pyval \<Rightarrow> ndarray" where
  "atleast_1d (Int_num i) = I64 [i]"
| "atleast_1d (Float_num x) = F64 [x]"
| "atleast_1d (Arr a) = a"

subsection \<open>Broadcasting of one-dimensional arrays\<close>

datatype exn = ValueError

text \<open>Two lengths broadcast when they are equal or one of them is 1.\<close>

definition broadcast_len :: "nat \<Rightarrow> nat \<Rightarrow> exn + nat" where
  "broadcast_len m n =
     (if m = n then Inr m else if m = 1 then Inr n else if n = 1 then Inr m
      else Inl ValueError)"

definition stretch :: "nat \<Rightarrow> 'a list \<Rightarrow> 'a list" where
  "stretch n xs = (if length xs = n then xs else replicate n (hd xs))"

text \<open>
  \<^verbatim>\<open>a - b\<close> on two arrays: int64 subtraction when both hold integers, the subtraction
  of doubles otherwise.
\<close>

definition np_sub :: "ndarray \<Rightarrow> ndarray \<Rightarrow> exn + ndarray" where
  "np_sub a b =
     (case broadcast_len (len a) (len b) of
        Inl e \<Rightarrow> Inl e
      | Inr n \<Rightarrow>
          Inr (case (a, b) of
                 (I64 x, I64 y) \<Rightarrow> I64 (map2 (\<lambda>u v. u - v) (stretch n x) (stretch n y))
               | _ \<Rightarrow> F64 (map2 fsub (stretch n (as_float a)) (stretch n (as_float b)))))"

text \<open>\<^verbatim>\<open>c - a\<close> for a Python integer \<open>c\<close> and an array \<open>a\<close>.\<close>

definition np_rsub :: "64 word \<Rightarrow> ndarray \<Rightarrow> ndarray" where
  "np_rsub c a =
     (case a of
        I64 x \<Rightarrow> I64 (map (\<lambda>w. c - w) x)
      | F64 y \<Rightarrow> F64 (map (fsub (to_double c)) y))"

text \<open>\<^verbatim>\<open>a > 0\<close>.\<close>

definition np_positive :: "ndarray \<Rightarrow> bool list" where
  "np_positive a =
     (case a of I64 x \<Rightarrow> map (\<lambda>w. 0 < sint w) x | F64 y \<Rightarrow> map (\<lambda>v. 0 < v) y)"

text \<open>\<^verbatim>\<open>a / c\<close> for a Python float \<open>c\<close>: true division, in doubles.\<close>

definition np_truediv :: "ndarray \<Rightarrow> rat \<Rightarrow> rat list" where
  "np_truediv a c = map (\<lambda>x. fdiv x c) (as_float a)"

text \<open>
  \<^verbatim>\<open>np.where(c, x, y)\<close>: the result holds integers when \<open>x\<close> and \<open>y\<close> both do, and
  doubles otherwise.
\<close>

definition pick :: "bool list \<Rightarrow> 'a list \<Rightarrow> 'a list \<Rightarrow> 'a list" where
  "pick c x y = map (\<lambda>(b, u, v). if b then u else v) (zip c (zip x y))"

definition np_where :: "bool list \<Rightarrow> ndarray \<Rightarrow> ndarray \<Rightarrow> exn + ndarray" where
  "np_where c x y =
     (case broadcast_len (length c) (len x) of
        Inl e \<Rightarrow> Inl e
      | Inr m \<Rightarrow>
          (case broadcast_len m (len y) of
             Inl e \<Rightarrow> Inl e
           | Inr n \<Rightarrow>
               Inr (case (x, y) of
                      (I64 u, I64 v) \<Rightarrow> I64 (pick (stretch n c) (stretch n u) (stretch n v))
                    | _ \<Rightarrow>
                        F64 (pick (stretch n c) (stretch n (as_float x))
                               (stretch n (as_float y))))))"

section \<open>The plotting context\<close>

text \<open>
  Drawing is done by matplotlib and mplstereonet, which are not part of the repository.
  The context records the calls made to them, in order, with their arguments; what the
  libraries do with a call is not modelled, and every call is taken to return. The values
  the libraries hand back (figures and axes) are named by the call that produced them.
  The context also records which calculators have been entered.
\<close>

datatype axes_ref =
    Gca_axes          \<comment> \<open>what \<^verbatim>\<open>plt.gca()\<close> returned\<close>
  | Subplot_axes nat  \<comment> \<open>\<^verbatim>\<open>ax[a]\<close> of \<^verbatim>\<open>st.subplots\<close>\<close>
  | Added_axes        \<comment> \<open>what \<^verbatim>\<open>fig.add_subplot\<close> returned\<close>

datatype figure_ref = Subplots_figure | New_figure

datatype axes_ret = One_axes axes_ref | Axes_array nat

type_synonym style = "(string \<times> string) list"

datatype call =
    Call_subplots nat string
  | Call_figure
  | Call_add_subplot nat string
  | Call_sca axes_ref
  | Call_gca
  | Call_plane axes_ref pyval pyval style
  | Call_cone axes_ref pyval pyval pyval style
  | Call_set_title axes_ref string
  | Call_grid axes_ref bool
  | Call_tight_layout figure_ref

record plt =
  calls :: "call list"
  entered :: "string list"

definition lib :: "call \<Rightarrow> plt \<Rightarrow> plt" where
  "lib c p = p\<lparr>calls := calls p @ [c]\<rparr>"

definition enter :: "string \<Rightarrow> plt \<Rightarrow> plt" where
  "enter name p = p\<lparr>entered := entered p @ [name]\<rparr>"

text \<open>\<^verbatim>\<open>ax=plt.gca()\<close> followed by \<^verbatim>\<open>ax.cone(...)\<close> or \<^verbatim>\<open>ax.plane(...)\<close>.\<close>

definition gca_cone :: "pyval \<Rightarrow> pyval \<Rightarrow> pyval \<Rightarrow> string \<Rightarrow> string \<Rightarrow> plt \<Rightarrow> plt" where
  "gca_cone plunge bearing angle facecolor edgecolor p =
     lib (Call_cone Gca_axes plunge bearing angle
            [(''facecolor'', facecolor), (''edgecolor'', edgecolor)])
       (lib Call_gca p)"

definition gca_plane :: "pyval \<Rightarrow> pyval \<Rightarrow> string \<Rightarrow> plt \<Rightarrow> plt" where
  "gca_plane strike dip linecolor p =
     lib (Call_plane Gca_axes strike dip [(''c'', linecolor)]) (lib Call_gca p)"

section \<open>The envelope calculators\<close>

text \<open>
  Every parameter of the source is a parameter here, in the source's order; the
  pole conversion \<^verbatim>\<open>st.pole2plunge_bearing\<close> of mplstereonet comes first, as a function from
  the strike and dip arrays to the plunge and bearing arrays.
\<close>

type_synonym pole_service = "ndarray \<Rightarrow> ndarray \<Rightarrow> ndarray \<times> ndarray"

text \<open>
  A pole conversion to run the calculators on at concrete inputs: the plunge is
  \<open>90 - dip\<close> and the bearing \<open>strike - 90\<close>, brought back above 0 by adding 360.
\<close>

definition sample_pole :: pole_service where
  "sample_pole strike dip =
     (np_rsub 90 dip,
      case strike of
        I64 s \<Rightarrow> I64 (map (\<lambda>w. if sint (w - 90) < 0 then w - 90 + 360 else w - 90) s)
      | F64 s \<Rightarrow> F64 (map (\<lambda>x. if fsub x 90 < 0 then fadd (fsub x 90) 360 else fsub x 90) s))"

definition planar_daylight ::
  "pole_service \<Rightarrow> pyval \<Rightarrow> pyval \<Rightarrow> bool \<Rightarrow> string \<Rightarrow> string \<Rightarrow> int \<Rightarrow> plt
     \<Rightarrow> (ndarray \<times> ndarray \<times> ndarray) \<times> plt" where
  "planar_daylight pole2plunge_bearing strike dip to_plot facecolor edgecolor segments p0 =
     (let p1 = enter ''planar_daylight'' p0;
          strike1 = atleast_1d strike;
          dip1 = atleast_1d dip;
          (p_plunge, p_bearing) = pole2plunge_bearing strike1 dip1;
          pde_plunge = F64 (map (fadd 45) (np_truediv p_plunge 2));
          pde_bearing = p_bearing;
          pde_angle = F64 (map (\<lambda>x. fsub (fsub 45 x) eps) (np_truediv p_plunge 2));
          p2 = (if to_plot
                then gca_cone (Arr pde_plunge) (Arr pde_bearing) (Arr pde_angle)
                       facecolor edgecolor p1
                else p1)
      in ((pde_plunge, pde_bearing, pde_angle), p2))"

definition planar_friction ::
  "pyval \<Rightarrow> bool \<Rightarrow> string \<Rightarrow> string \<Rightarrow> int \<Rightarrow> plt
     \<Rightarrow> (ndarray \<times> ndarray \<times> ndarray) \<times> plt" where
  "planar_friction friction to_plot facecolor edgecolor segments p0 =
     (let p1 = enter ''planar_friction'' p0;
          friction1 = atleast_1d friction;
          pfe_plunge = F64 (map (fmul 90) (replicate (len friction1) 1));
          pfe_bearing = F64 (replicate (len friction1) 0);
          pfe_angle = friction1;
          p2 = (if to_plot
                then gca_cone (Arr pfe_plunge) (Arr pfe_bearing) (Arr pfe_angle)
                       facecolor edgecolor p1
                else p1)
      in ((pfe_plunge, pfe_bearing, pfe_angle), p2))"

definition wedge_daylight ::
  "pyval \<Rightarrow> pyval \<Rightarrow> bool \<Rightarrow> string \<Rightarrow> int \<Rightarrow> plt \<Rightarrow> (ndarray \<times> ndarray) \<times> plt" where
  "wedge_daylight strike dip to_plot linecolor segments p0 =
     (let p1 = enter ''wedge_daylight'' p0;
          wde_strike = atleast_1d strike;
          wde_dip = atleast_1d dip;
          p2 = (if to_plot then gca_plane (Arr wde_strike) (Arr wde_dip) linecolor p1 else p1)
      in ((wde_strike, wde_dip), p2))"

definition wedge_friction ::
  "pyval \<Rightarrow> bool \<Rightarrow> string \<Rightarrow> string \<Rightarrow> int \<Rightarrow> plt
     \<Rightarrow> (ndarray \<times> ndarray \<times> ndarray) \<times> plt" where
  "wedge_friction friction to_plot facecolor edgecolor segments p0 =
     (let p1 = enter ''wedge_friction'' p0;
          friction1 = atleast_1d friction;
          wfe_plunge = F64 (map (fmul 90) (replicate (len friction1) 1));
          wfe_bearing = F64 (replicate (len friction1) 0);
          wfe_angle = np_rsub 90 friction1;
          p2 = (if to_plot
                then gca_cone (Arr wfe_plunge) (Arr wfe_bearing) (Arr wfe_angle)
                       facecolor edgecolor p1
                else p1)
      in ((wfe_plunge, wfe_bearing, wfe_angle), p2))"

text \<open>
  \<^verbatim>\<open>toppling_slipLimits\<close> returns the Python integers 0 and 60 for plunge and angle, and
  draws with fixed colours whatever \<^verbatim>\<open>linecolor\<close> is.
\<close>

definition toppling_slipLimits ::
  "pyval \<Rightarrow> pyval \<Rightarrow> bool \<Rightarrow> string \<Rightarrow> int \<Rightarrow> plt \<Rightarrow> (pyval \<times> pyval \<times> pyval) \<times> plt" where
  "toppling_slipLimits strike dip to_plot linecolor segments p0 =
     (let p1 = enter ''toppling_slipLimits'' p0;
          strike1 = atleast_1d strike;
          dip1 = atleast_1d dip;
          tsl_plunge = Int_num 0;
          tsl_bearing = Arr strike1;
          tsl_angle = Int_num 60;
          p2 = (if to_plot then gca_cone tsl_plunge tsl_bearing tsl_angle ''none'' ''b'' p1
                else p1)
      in ((tsl_plunge, tsl_bearing, tsl_angle), p2))"

definition toppling_friction ::
  "pyval \<Rightarrow> pyval \<Rightarrow> pyval \<Rightarrow> bool \<Rightarrow> string \<Rightarrow> int \<Rightarrow> plt
     \<Rightarrow> exn + (ndarray \<times> ndarray) \<times> plt" where
  "toppling_friction strike dip friction to_plot linecolor segments p0 =
     (let p1 = enter ''toppling_friction'' p0;
          friction1 = atleast_1d friction;
          tfe_strike = atleast_1d strike;
          dip1 = atleast_1d dip
      in case np_sub dip1 friction1 of
           Inl e \<Rightarrow> Inl e
         | Inr diff \<Rightarrow>
             (case np_where (np_positive diff) diff (F64 (replicate (len tfe_strike) 0)) of
                Inl e \<Rightarrow> Inl e
              | Inr tfe_dip \<Rightarrow>
                  Inr ((tfe_strike, tfe_dip),
                       if to_plot then gca_plane (Arr tfe_strike) (Arr tfe_dip) linecolor p1
                       else p1)))"

section \<open>The plot orchestrator\<close>

definition slope_style :: style where
  "slope_style = [(''fmt'', ''k--''), (''alpha'', ''0.5''), (''lw'', ''5'')]"

definition stereonet :: string where
  "stereonet = ''equal_angle_stereonet''"

text \<open>The three pairs of calculators, called with the defaults of their other parameters.\<close>

definition planar_pair :: "pole_service \<Rightarrow> pyval \<Rightarrow> pyval \<Rightarrow> pyval \<Rightarrow> bool \<Rightarrow> plt \<Rightarrow> plt" where
  "planar_pair srv strike dip friction to_plot p =
     snd (planar_daylight srv strike dip to_plot ''none'' ''b'' 100
            (snd (planar_friction friction to_plot ''none'' ''r'' 100 p)))"

definition wedge_pair :: "pyval \<Rightarrow> pyval \<Rightarrow> pyval \<Rightarrow> bool \<Rightarrow> plt \<Rightarrow> plt" where
  "wedge_pair strike dip friction to_plot p =
     snd (wedge_daylight strike dip to_plot ''b'' 100
            (snd (wedge_friction friction to_plot ''none'' ''r'' 100 p)))"

definition toppling_pair :: "pyval \<Rightarrow> pyval \<Rightarrow> pyval \<Rightarrow> bool \<Rightarrow> plt \<Rightarrow> exn + plt" where
  "toppling_pair strike dip friction to_plot p =
     (case toppling_friction strike dip friction to_plot ''r'' 100 p of
        Inl e \<Rightarrow> Inl e
      | Inr (_, p1) \<Rightarrow> Inr (snd (toppling_slipLimits strike dip to_plot ''b'' 100 p1)))"

definition titled :: "axes_ref \<Rightarrow> string \<Rightarrow> plt \<Rightarrow> plt" where
  "titled ax name p = lib (Call_grid ax True) (lib (Call_set_title ax (name @ [CHR 10, CHR 10])) p)"

definition setup_axes ::
  "pole_service \<Rightarrow> pyval \<Rightarrow> pyval \<Rightarrow> pyval \<Rightarrow> string \<Rightarrow> bool \<Rightarrow> plt
     \<Rightarrow> exn + (figure_ref \<times> axes_ret) \<times> plt" where
  "setup_axes srv strike dip friction failure to_plot p0 =
     (if failure = ''all'' then
        (let p1 = lib (Call_subplots 3 stereonet) p0;
             p2 = foldl (\<lambda>p a. lib (Call_plane (Subplot_axes a) strike dip slope_style) p)
                    p1 [0 ..< 3];
             p3 = titled (Subplot_axes 0) ''planar'' (lib (Call_sca (Subplot_axes 0)) p2);
             p4 = planar_pair srv strike dip friction to_plot p3;
             p5 = titled (Subplot_axes 1) ''wedge'' (lib (Call_sca (Subplot_axes 1)) p4);
             p6 = wedge_pair strike dip friction to_plot p5;
             p7 = titled (Subplot_axes 2) ''toppling'' (lib (Call_sca (Subplot_axes 2)) p6)
         in case toppling_pair strike dip friction to_plot p7 of
              Inl e \<Rightarrow> Inl e
            | Inr p8 \<Rightarrow> Inr ((Subplots_figure, Axes_array 3), p8))
      else
        (let p1 = lib (Call_add_subplot 111 stereonet) (lib Call_figure p0);
             p2 = lib (Call_plane Added_axes strike dip slope_style) p1;
             r = (if failure = ''planar'' then
                    Inr (planar_pair srv strike dip friction to_plot
                           (titled Added_axes ''planar'' p2))
                  else if failure = ''wedge'' then
                    Inr (wedge_pair strike dip friction to_plot
                           (titled Added_axes ''wedge'' p2))
                  else if failure = ''toppling'' then
                    toppling_pair strike dip friction to_plot
                      (titled Added_axes ''toppling'' p2)
                  else Inr (lib (Call_grid Added_axes True) p2))
         in case r of
              Inl e \<Rightarrow> Inl e
            | Inr p3 \<Rightarrow> Inr ((New_figure, One_axes Added_axes), lib (Call_tight_layout New_figure) p3)))"

section \<open>Properties of rounding\<close>

text \<open>
  Rounding to an integer moves a number by at most one half, \<open>ilog2\<close> is the binary
  exponent, and so rounding to a double moves a number below \<open>2 ^ (k + 1)\<close> by at most
  \<open>2 ^ (k - 53)\<close>, half the spacing of the doubles there.
\<close>

subsection \<open>Known doubles\<close>

text \<open>
  The rounding gives the doubles that Python prints for \<^verbatim>\<open>0.1\<close>, \<^verbatim>\<open>1/3\<close> and
  \<^verbatim>\<open>0.1 + 0.2\<close>, and resolves ties to the even neighbour.
\<close>

lemma round_double_tenth: "round_double (1 / 10) = 3602879701896397 / 2 ^ 55"
  by code_simp

lemma round_double_third: "round_double (1 / 3) = 6004799503160661 / 2 ^ 54"
  by code_simp

lemma fadd_tenth_fifth:
  "fadd (round_double (1 / 10)) (round_double (2 / 10)) = 5404319552844596 / 2 ^ 54"
  by code_simp

lemma round_double_ties:
  "round_double (2 ^ 53 + 1) = 2 ^ 53" "round_double (2 ^ 53 + 3) = 2 ^ 53 + 4"
  by code_simp+

subsection \<open>The rounding error\<close>

lemma round_even_error: "\<bar>of_int (round_even q) - q\<bar> \<le> 1 / 2"
proof -
  have "of_int \<lfloor>q\<rfloor> \<le> q" "q < of_int \<lfloor>q\<rfloor> + 1"
    by linarith+
  then show ?thesis
    by (auto simp: round_even_def Let_def abs_le_iff)
qed

lemma two_powi_pos: "0 < (2::rat) powi e"
  by (simp add: zero_less_power_int)

lemma two_powi_nat: "0 \<le> e \<Longrightarrow> (2::rat) powi e = 2 ^ nat e"
  by (simp add: power_int_def)

lemma two_powi_neg: "0 \<le> e \<Longrightarrow> (2::rat) powi (- e) = 1 / 2 ^ nat e"
  by (simp add: power_int_minus two_powi_nat inverse_eq_divide)

lemma two_powi_less_cancel: "(2::rat) powi a < 2 powi b \<Longrightarrow> a < b"
proof (rule ccontr)
  assume less: "(2::rat) powi a < 2 powi b" and "\<not> a < b"
  then have "(2::rat) powi b \<le> 2 powi a"
    by (intro power_int_increasing) simp_all
  with less show False by simp
qed

lemma ilog2_lower: "0 < q \<Longrightarrow> 2 powi ilog2 q \<le> q"
proof (cases "1 \<le> q")
  case True
  then have pos: "0 < \<lfloor>q\<rfloor>" by linarith
  then have "1 \<le> bitlen \<lfloor>q\<rfloor>"
    using bitlen_eq_zero_iff [of "\<lfloor>q\<rfloor>"] bitlen_nonneg [of "\<lfloor>q\<rfloor>"] by linarith
  then have "(2::rat) powi (bitlen \<lfloor>q\<rfloor> - 1) = 2 ^ nat (bitlen \<lfloor>q\<rfloor> - 1)"
    by (simp add: two_powi_nat)
  also have "\<dots> = of_int (2 ^ nat (bitlen \<lfloor>q\<rfloor> - 1))"
    by simp
  also have "\<dots> \<le> of_int \<lfloor>q\<rfloor>"
    using bitlen_bounds [OF pos] by (subst of_int_le_iff) simp
  also have "\<dots> \<le> q" by simp
  finally show ?thesis using True by (simp add: ilog2_def)
next
  case False
  assume q: "0 < q"
  let ?m = "\<lceil>1 / q\<rceil> - 1"
  from False q have "1 < 1 / q" by simp
  then have pos: "0 < ?m" by linarith
  have "1 / q \<le> of_int \<lceil>1 / q\<rceil>" by simp
  also have "\<dots> = of_int (?m + 1)" by simp
  also have "\<dots> \<le> of_int (2 ^ nat (bitlen ?m))"
    using bitlen_bounds [OF pos] by (subst of_int_le_iff) linarith
  also have "\<dots> = (2::rat) ^ nat (bitlen ?m)" by simp
  finally have "1 / q \<le> 2 ^ nat (bitlen ?m)" .
  then have "1 / 2 ^ nat (bitlen ?m) \<le> q"
    using q by (simp add: field_simps)
  then show ?thesis
    using False by (simp add: ilog2_def two_powi_neg bitlen_nonneg)
qed

lemma ilog2_upper: "0 < q \<Longrightarrow> q < 2 powi (ilog2 q + 1)"
proof (cases "1 \<le> q")
  case True
  then have pos: "0 < \<lfloor>q\<rfloor>" by linarith
  have "q < of_int (\<lfloor>q\<rfloor> + 1)" by linarith
  also have "\<dots> \<le> of_int (2 ^ nat (bitlen \<lfloor>q\<rfloor>))"
    using bitlen_bounds [OF pos] by (subst of_int_le_iff) linarith
  also have "\<dots> = (2::rat) powi bitlen \<lfloor>q\<rfloor>"
    by (simp add: two_powi_nat bitlen_nonneg)
  finally show ?thesis using True by (simp add: ilog2_def)
next
  case False
  assume q: "0 < q"
  let ?m = "\<lceil>1 / q\<rceil> - 1"
  from False q have "1 < 1 / q" by simp
  then have pos: "0 < ?m" by linarith
  then have b1: "1 \<le> bitlen ?m"
    using bitlen_eq_zero_iff [of ?m] bitlen_nonneg [of ?m] by linarith
  have "(2::rat) ^ nat (bitlen ?m - 1) = of_int (2 ^ nat (bitlen ?m - 1))" by simp
  also have "\<dots> \<le> of_int ?m"
    using bitlen_bounds [OF pos] by (subst of_int_le_iff) simp
  also have "\<dots> < 1 / q" by linarith
  finally have "2 ^ nat (bitlen ?m - 1) < 1 / q" .
  then have "q < 1 / 2 ^ nat (bitlen ?m - 1)"
    using q by (simp add: field_simps)
  also have "\<dots> = 2 powi (- (bitlen ?m - 1))"
    using b1 two_powi_neg [of "bitlen ?m - 1"] by simp
  finally show ?thesis
    using False by (simp add: ilog2_def)
qed

lemma ilog2_less: "0 < q \<Longrightarrow> q < 2 powi k \<Longrightarrow> ilog2 q < k"
  using ilog2_lower [of q] by (intro two_powi_less_cancel) simp

lemma round_double_error:
  "\<bar>round_double y - y\<bar> \<le> 2 powi (max (ilog2 \<bar>y\<bar> - 52) (- 1074)) / 2"
proof (cases "y = 0")
  case True
  then show ?thesis
    using two_powi_pos [of "max (ilog2 \<bar>y\<bar> - 52) (- 1074)"] by (simp add: round_double_def)
next
  case False
  define s :: rat where "s = 2 powi (max (ilog2 \<bar>y\<bar> - 52) (- 1074))"
  have s: "0 < s" by (simp add: s_def two_powi_pos)
  have "round_double y - y = (of_int (round_even (y / s)) - y / s) * s"
    using False s by (simp add: round_double_def s_def Let_def algebra_simps)
  then have "\<bar>round_double y - y\<bar> = \<bar>of_int (round_even (y / s)) - y / s\<bar> * s"
    using s by (simp add: abs_mult)
  also have "\<dots> \<le> 1 / 2 * s"
    using round_even_error [of "y / s"] s by (intro mult_right_mono) simp_all
  finally show ?thesis by (simp add: s_def)
qed

lemma round_double_error_below:
  assumes "\<bar>y\<bar> < 2 powi (k + 1)" and "- 1022 \<le> k"
  shows "\<bar>round_double y - y\<bar> \<le> 2 powi (k - 53)"
proof (cases "y = 0")
  case True
  then show ?thesis
    using two_powi_pos [of "k - 53"] by (simp add: round_double_def)
next
  case False
  then have "ilog2 \<bar>y\<bar> < k + 1"
    using assms(1) by (intro ilog2_less) simp_all
  then have "max (ilog2 \<bar>y\<bar> - 52) (- 1074) \<le> k - 52"
    using assms(2) by simp
  then have "(2::rat) powi (max (ilog2 \<bar>y\<bar> - 52) (- 1074)) \<le> 2 powi (k - 52)"
    by (intro power_int_increasing) simp_all
  moreover have "(2::rat) powi (k - 52) = 2 * 2 powi (k - 53)"
    using power_int_add_1' [of "2::rat" "k - 53"] by simp
  ultimately show ?thesis
    using round_double_error [of y] by simp
qed

text \<open>A number at or below \<open>- 2 ^ - 1074\<close> rounds to a negative double.\<close>

lemma round_even_le_minus_one: "q \<le> - 1 \<Longrightarrow> round_even q \<le> - 1"
proof -
  assume q: "q \<le> - 1"
  then have f: "\<lfloor>q\<rfloor> \<le> - 1" by linarith
  show ?thesis
  proof (cases "\<lfloor>q\<rfloor> = - 1")
    case True
    then show ?thesis using q by (simp add: round_even_def Let_def)
  next
    case False
    then have "\<lfloor>q\<rfloor> + 1 \<le> - 1" using f by linarith
    then show ?thesis
      by (auto simp: round_even_def Let_def)
  qed
qed

lemma round_double_negative:
  assumes "y \<le> - (2 powi (- 1074))"
  shows "round_double y < 0"
proof -
  define e where "e = max (ilog2 \<bar>y\<bar> - 52) (- 1074)"
  have pos: "0 < (2::rat) powi e" by (rule two_powi_pos)
  have y: "y < 0" "0 < \<bar>y\<bar>"
    using assms two_powi_pos [of "- 1074"] by linarith+
  have "(2::rat) powi e \<le> \<bar>y\<bar>"
  proof (cases "ilog2 \<bar>y\<bar> - 52 \<le> - 1074")
    case True
    then show ?thesis using assms y by (simp add: e_def max_def)
  next
    case False
    then have "(2::rat) powi e \<le> 2 powi ilog2 \<bar>y\<bar>"
      unfolding e_def by (intro power_int_increasing) simp_all
    also have "\<dots> \<le> \<bar>y\<bar>" using y by (intro ilog2_lower)
    finally show ?thesis .
  qed
  then have "y / 2 powi e \<le> - 1"
    using y pos by (simp add: field_simps)
  then have "round_even (y / 2 powi e) \<le> - 1"
    by (rule round_even_le_minus_one)
  then have "(of_int (round_even (y / 2 powi e)) :: rat) < 0"
    by simp
  then have "of_int (round_even (y / 2 powi e)) * (2::rat) powi e < 0"
    using pos by (simp add: mult_less_0_iff)
  then show ?thesis
    using y by (simp add: round_double_def e_def Let_def)
qed

lemma double_on_grid:
  assumes "round_double x = x"
  shows "\<exists>k. x = of_int k * 2 powi (- 1074)"
proof (cases "x = 0")
  case True
  then show ?thesis by (intro exI [of _ 0]) simp
next
  case False
  define e where "e = max (ilog2 \<bar>x\<bar> - 52) (- 1074)"
  define m where "m = round_even (x / 2 powi e)"
  have x: "x = of_int m * 2 powi e"
    using assms False by (simp add: round_double_def e_def m_def Let_def)
  have "0 \<le> e + 1074" by (simp add: e_def)
  then have "(2::rat) powi e = 2 ^ nat (e + 1074) * 2 powi (- 1074)"
    using power_int_add [of "2::rat" "e + 1074" "- 1074"] by (simp add: two_powi_nat)
  then have "x = of_int (m * 2 ^ nat (e + 1074)) * 2 powi (- 1074)"
    using x by simp
  then show ?thesis ..
qed

lemma fsub_90_negative:
  assumes "is_double f" and "90 < f"
  shows "fsub 90 f < 0"
proof -
  obtain k where k: "f = of_int k * 2 powi (- 1074)"
    using assms(1) double_on_grid unfolding is_double_def by blast
  have one: "(2::rat) ^ 1074 * 2 powi (- 1074) = 1"
    using power_int_add [of "2::rat" 1074 "- 1074"] by simp
  have "90 - f = of_int (90 * 2 ^ 1074 - k) * 2 powi (- 1074)"
    unfolding k using one by (simp add: algebra_simps)
  moreover have "90 - f < 0" using assms(2) by simp
  ultimately have "(of_int (90 * 2 ^ 1074 - k) :: rat) * 2 powi (- 1074) < 0"
    by simp
  then have "(of_int (90 * 2 ^ 1074 - k) :: rat) < 0"
    using two_powi_pos [of "- 1074"] by (simp add: mult_less_0_iff)
  then have "90 * 2 ^ 1074 - k \<le> - 1" by linarith
  then have "(of_int (90 * 2 ^ 1074 - k) :: rat) \<le> of_int (- 1)"
    by (subst of_int_le_iff)
  then have "of_int (90 * 2 ^ 1074 - k) * 2 powi (- 1074) \<le> (- 1) * (2::rat) powi (- 1074)"
    using two_powi_pos [of "- 1074"] by (intro mult_right_mono) simp_all
  then have "90 - f \<le> - (2 powi (- 1074))"
    using \<open>90 - f = of_int (90 * 2 ^ 1074 - k) * 2 powi (- 1074)\<close> by simp
  then show ?thesis
    unfolding fsub_def by (rule round_double_negative)
qed

subsection \<open>Numbers that rounding leaves alone\<close>






lemma sint_sub_in_range:
  fixes a b :: "64 word"
  assumes "- (2 ^ 63) \<le> sint a - sint b" and "sint a - sint b < 2 ^ 63"
  shows "sint (a - b) = sint a - sint b"
  using assms by (simp add: sint_word_diff signed_take_bit_int_eq_self)


subsection \<open>Rounding in the planar daylight angle\<close>

lemma eps_value: "eps = 4835703278458517 / 2 ^ 82"
  by code_simp

lemma eps_numeral: "eps = 4835703278458517 / 4835703278458516698824704"
  by (simp add: eps_value)

lemma round_double_error_64:
  assumes "- 64 < y" and "y < 64"
  shows "y - 1 / 281474976710656 \<le> round_double y"
    and "round_double y \<le> y + 1 / 281474976710656"
proof -
  have "\<bar>y\<bar> < 2 powi (5 + 1)"
    using assms by simp
  then have "\<bar>round_double y - y\<bar> \<le> 2 powi (5 - 53)"
    by (rule round_double_error_below) simp
  then have "\<bar>round_double y - y\<bar> \<le> 1 / 281474976710656"
    by (simp add: inverse_eq_divide)
  then show "y - 1 / 281474976710656 \<le> round_double y"
    and "round_double y \<le> y + 1 / 281474976710656"
    by linarith+
qed

lemma planar_angle_bounds:
  assumes "0 \<le> p" and "p \<le> 90"
  shows "fsub (fsub 45 (fdiv p 2)) eps < fsub 45 (fdiv p 2)"
    and "\<bar>fsub 45 (fdiv p 2) - fsub (fsub 45 (fdiv p 2)) eps - 1 / 10 ^ 9\<bar> \<le> 1 / 10 ^ 14"
    and "fsub (fsub 45 (fdiv p 2)) eps < 45 - p / 2"
proof -
  define h where "h = fdiv p 2"
  define x where "x = fsub 45 h"
  define a where "a = fsub x eps"
  have h: "p / 2 - 1 / 281474976710656 \<le> h" "h \<le> p / 2 + 1 / 281474976710656"
    unfolding h_def fdiv_def using assms by (intro round_double_error_64; linarith)+
  have x: "45 - h - 1 / 281474976710656 \<le> x" "x \<le> 45 - h + 1 / 281474976710656"
    unfolding x_def fsub_def using assms h by (intro round_double_error_64; linarith)+
  have a: "x - eps - 1 / 281474976710656 \<le> a" "a \<le> x - eps + 1 / 281474976710656"
    unfolding a_def fsub_def using assms h x
    by (intro round_double_error_64; simp add: eps_numeral; linarith)+
  have "a < x"
    using a by (simp add: eps_numeral)
  then show "fsub (fsub 45 (fdiv p 2)) eps < fsub 45 (fdiv p 2)"
    by (simp add: a_def x_def h_def)
  have "\<bar>x - a - 1 / 1000000000\<bar> \<le> 1 / 100000000000000"
    using a unfolding eps_numeral by linarith
  then show "\<bar>fsub 45 (fdiv p 2) - fsub (fsub 45 (fdiv p 2)) eps - 1 / 10 ^ 9\<bar> \<le> 1 / 10 ^ 14"
    by (simp add: a_def x_def h_def)
  have "a < 45 - p / 2"
    using a x h unfolding eps_numeral by linarith
  then show "fsub (fsub 45 (fdiv p 2)) eps < 45 - p / 2"
    by (simp add: a_def x_def h_def)
qed

section \<open>Properties of the calculators\<close>

lemmas calc_defs = planar_daylight_def planar_friction_def wedge_daylight_def wedge_friction_def
  toppling_slipLimits_def toppling_friction_def

subsection \<open>Toppling slip limits\<close>

text \<open>
  C4. For every strike and dip, \<^verbatim>\<open>toppling_slipLimits\<close> returns the strike as bearing,
  element by element: the array it was given, or the one-element array of the number it
  was given. The plunge and the angle it returns are the Python integers 0 and 60, not
  arrays holding a 0 and a 60 for every element of the bearing, whatever the length of
  the input: for the strikes 10, 20 and the dips 30, 40 the result is 0, the array
  10, 20 and 60, where the docstring of the function promises arrays of plunge, bearing
  and angle, as \<^verbatim>\<open>planar_friction\<close> and \<^verbatim>\<open>wedge_friction\<close> build them.
\<close>

theorem toppling_slipLimits_values:
  "fst (toppling_slipLimits strike dip to_plot linecolor segments p) =
     (Int_num 0, Arr (atleast_1d strike), Int_num 60)
   \<and> fst (toppling_slipLimits (Arr s) (Arr d) to_plot linecolor segments p) =
     (Int_num 0, Arr s, Int_num 60)
   \<and> fst (toppling_slipLimits (Arr (I64 [10, 20])) (Arr (I64 [30, 40])) False ''b'' 100
        \<lparr>calls = [], entered = []\<rparr>) = (Int_num 0, Arr (I64 [10, 20]), Int_num 60)
   \<and> fst (toppling_slipLimits (Float_num (45 / 2)) (Int_num 30) False ''b'' 100
        \<lparr>calls = [], entered = []\<rparr>) = (Int_num 0, Arr (F64 [45 / 2]), Int_num 60)
   \<and> Int_num 60 \<noteq> Arr (I64 [60, 60]) \<and> Int_num 0 \<noteq> Arr (I64 [0, 0])"
  by (simp add: toppling_slipLimits_def Let_def)

subsection \<open>Wedge daylight\<close>

text \<open>
  C5. \<^verbatim>\<open>wedge_daylight\<close> returns strike and dip as it received them, whatever their values
  (a number comes back as the array holding it; nothing is checked), so the pole
  conversion maps the returned orientation to the pole of the original one.
\<close>

theorem wedge_daylight_identity:
  "fst (wedge_daylight strike dip to_plot linecolor segments p) =
     (atleast_1d strike, atleast_1d dip)
   \<and> fst (wedge_daylight (Arr s) (Arr d) to_plot linecolor segments p) = (s, d)
   \<and> (case fst (wedge_daylight strike dip to_plot linecolor segments p) of
        (wde_strike, wde_dip) \<Rightarrow>
          srv wde_strike wde_dip = srv (atleast_1d strike) (atleast_1d dip))"
  by (simp add: wedge_daylight_def Let_def)

subsection \<open>Numbers and one-element sequences\<close>

text \<open>
  C8. Each of the six calculators gives the same result (the returned numbers and the
  calls it makes to the plotting library) for a number \<open>x\<close> and for the one-element
  sequence \<open>[x]\<close>, be the number an integer or a float.
\<close>

theorem scalar_is_one_element_sequence:
  "planar_daylight srv (Int_num s) (Int_num d) to_plot facecolor edgecolor segments p =
     planar_daylight srv (Arr (I64 [s])) (Arr (I64 [d])) to_plot facecolor edgecolor segments p
   \<and> planar_daylight srv (Float_num x) (Float_num y) to_plot facecolor edgecolor segments p =
     planar_daylight srv (Arr (F64 [x])) (Arr (F64 [y])) to_plot facecolor edgecolor segments p
   \<and> planar_friction (Int_num f) to_plot facecolor edgecolor segments p =
     planar_friction (Arr (I64 [f])) to_plot facecolor edgecolor segments p
   \<and> planar_friction (Float_num z) to_plot facecolor edgecolor segments p =
     planar_friction (Arr (F64 [z])) to_plot facecolor edgecolor segments p
   \<and> wedge_daylight (Int_num s) (Int_num d) to_plot linecolor segments p =
     wedge_daylight (Arr (I64 [s])) (Arr (I64 [d])) to_plot linecolor segments p
   \<and> wedge_daylight (Float_num x) (Float_num y) to_plot linecolor segments p =
     wedge_daylight (Arr (F64 [x])) (Arr (F64 [y])) to_plot linecolor segments p
   \<and> wedge_friction (Int_num f) to_plot facecolor edgecolor segments p =
     wedge_friction (Arr (I64 [f])) to_plot facecolor edgecolor segments p
   \<and> wedge_friction (Float_num z) to_plot facecolor edgecolor segments p =
     wedge_friction (Arr (F64 [z])) to_plot facecolor edgecolor segments p
   \<and> toppling_slipLimits (Int_num s) (Int_num d) to_plot linecolor segments p =
     toppling_slipLimits (Arr (I64 [s])) (Arr (I64 [d])) to_plot linecolor segments p
   \<and> toppling_slipLimits (Float_num x) (Float_num y) to_plot linecolor segments p =
     toppling_slipLimits (Arr (F64 [x])) (Arr (F64 [y])) to_plot linecolor segments p
   \<and> toppling_friction (Int_num s) (Int_num d) (Int_num f) to_plot linecolor segments p =
     toppling_friction (Arr (I64 [s])) (Arr (I64 [d])) (Arr (I64 [f])) to_plot linecolor
       segments p
   \<and> toppling_friction (Float_num x) (Float_num y) (Float_num z) to_plot linecolor segments p =
     toppling_friction (Arr (F64 [x])) (Arr (F64 [y])) (Arr (F64 [z])) to_plot linecolor
       segments p"
  by (simp add: calc_defs)

text \<open>The same holds argument by argument, for a calculator of two and of three arguments.\<close>

lemma atleast_1d_first:
  "planar_daylight srv strike dip to_plot facecolor edgecolor segments p =
     planar_daylight srv (Arr (atleast_1d strike)) (Arr (atleast_1d dip)) to_plot facecolor
       edgecolor segments p"
  "toppling_friction strike dip friction to_plot linecolor segments p =
     toppling_friction (Arr (atleast_1d strike)) (Arr (atleast_1d dip))
       (Arr (atleast_1d friction)) to_plot linecolor segments p"
  by (simp_all add: calc_defs)

subsection \<open>Style options and segments\<close>

text \<open>
  C10. The numbers a calculator returns do not depend on \<^verbatim>\<open>segments\<close> nor on the colour
  options (nor on the plotting context it runs in): two calls that differ only there
  return the same numbers, and \<^verbatim>\<open>toppling_friction\<close> fails in the one exactly when it
  fails in the other.
\<close>

theorem numbers_independent_of_style:
  "fst (planar_daylight srv strike dip to_plot facecolor edgecolor segments p) =
     fst (planar_daylight srv strike dip to_plot facecolor' edgecolor' segments' p')
   \<and> fst (planar_friction friction to_plot facecolor edgecolor segments p) =
     fst (planar_friction friction to_plot facecolor' edgecolor' segments' p')
   \<and> fst (wedge_daylight strike dip to_plot linecolor segments p) =
     fst (wedge_daylight strike dip to_plot linecolor' segments' p')
   \<and> fst (wedge_friction friction to_plot facecolor edgecolor segments p) =
     fst (wedge_friction friction to_plot facecolor' edgecolor' segments' p')
   \<and> fst (toppling_slipLimits strike dip to_plot linecolor segments p) =
     fst (toppling_slipLimits strike dip to_plot linecolor' segments' p')
   \<and> map_sum id fst (toppling_friction strike dip friction to_plot linecolor segments p) =
     map_sum id fst (toppling_friction strike dip friction to_plot linecolor' segments' p')"
  by (simp add: calc_defs Let_def split: prod.splits sum.splits)

subsection \<open>The orchestrator on an unknown failure mode\<close>

text \<open>
  With the selector \<^verbatim>\<open>'planar'\<close> the two planar calculators are entered, in the order
  friction, daylight: the record of entered calculators does see a call.
\<close>

lemma setup_axes_planar_enters:
  "\<exists>r p'. setup_axes srv strike dip friction ''planar'' to_plot p = Inr (r, p')
     \<and> entered p' = entered p @ [''planar_friction'', ''planar_daylight'']"
  by (simp add: setup_axes_def planar_pair_def titled_def planar_daylight_def
      planar_friction_def gca_cone_def lib_def enter_def Let_def split: prod.splits)

text \<open>
  With the selector \<^verbatim>\<open>'toppling'\<close> and dips that do not broadcast against the frictions,
  \<^verbatim>\<open>setup_axes\<close> raises the error of \<^verbatim>\<open>toppling_friction\<close>.
\<close>

lemma setup_axes_toppling_raises:
  "setup_axes srv (Arr (I64 [10, 20])) (Arr (I64 [70, 60, 50])) (Arr (I64 [30, 30])) ''toppling''
     to_plot p = Inl ValueError"
  by (simp add: setup_axes_def toppling_pair_def toppling_friction_def np_sub_def
      broadcast_len_def Let_def)

text \<open>
  C9. With a selector other than \<^verbatim>\<open>'planar'\<close>, \<^verbatim>\<open>'wedge'\<close>, \<^verbatim>\<open>'toppling'\<close> and \<^verbatim>\<open>'all'\<close>,
  \<^verbatim>\<open>setup_axes\<close> does not raise: it returns the new figure and its one axes, on which
  it has drawn the slope face and switched the grid on, and nothing else; no calculator
  is entered.
\<close>

theorem setup_axes_other:
  assumes "failure \<notin> {''planar'', ''wedge'', ''toppling'', ''all''}"
  shows "setup_axes srv strike dip friction failure to_plot p =
           Inr ((New_figure, One_axes Added_axes),
                \<lparr>calls = calls p @
                   [Call_figure, Call_add_subplot 111 stereonet,
                    Call_plane Added_axes strike dip slope_style,
                    Call_grid Added_axes True, Call_tight_layout New_figure],
                 entered = entered p\<rparr>)"
  using assms by (simp add: setup_axes_def lib_def Let_def)

theorem setup_axes_other_witness:
  "''bogus'' \<notin> {''planar'', ''wedge'', ''toppling'', ''all''}
   \<and> setup_axes sample_pole (Int_num 45) (Int_num 70) (Int_num 30) ''bogus'' True
        \<lparr>calls = [], entered = []\<rparr> =
       Inr ((New_figure, One_axes Added_axes),
            \<lparr>calls = [Call_figure, Call_add_subplot 111 stereonet,
                      Call_plane Added_axes (Int_num 45) (Int_num 70) slope_style,
                      Call_grid Added_axes True, Call_tight_layout New_figure],
             entered = []\<rparr>)"
  using setup_axes_other [of "''bogus''" sample_pole "Int_num 45" "Int_num 70"
      "Int_num 30" True "\<lparr>calls = [], entered = []\<rparr>"]
  by simp

subsection \<open>Toppling friction\<close>

text \<open>Arrays of one length broadcast to themselves.\<close>

lemma broadcast_len_same [simp]: "broadcast_len n n = Inr n"
  by (simp add: broadcast_len_def)

lemma stretch_same [simp]: "length xs = n \<Longrightarrow> stretch n xs = xs"
  by (simp add: stretch_def)

lemma len_as_float [simp]: "length (as_float a) = len a"
  by (cases a) simp_all

















text \<open>The same on floats: the dips 70.5 and 20 with the frictions 30.25 and 30.\<close>

lemma toppling_friction_floats:
  "map_sum id fst (toppling_friction (Float_num 45) (Arr (F64 [141 / 2, 20]))
      (Arr (F64 [121 / 4, 30])) False ''r'' 100 \<lparr>calls = [], entered = []\<rparr>) =
     Inr (F64 [45], F64 [161 / 4, 0])"
  by code_simp

subsection \<open>Wedge friction\<close>

lemma fmul_90_1: "fmul 90 1 = 90"
  by code_simp

lemma to_double_90: "to_double 90 = 90"
  by code_simp

lemma is_double_120: "is_double 120"
  by code_simp

lemma round_double_minus_30: "round_double (- 30) = - 30"
  by code_simp

lemma round_double_60: "round_double 60 = 60"
  by code_simp

lemma sint_rsub_90:
  fixes w :: "64 word"
  assumes "- (2 ^ 63) + 91 \<le> sint w"
  shows "sint (90 - w) = 90 - sint w"
proof -
  have "sint w < 2 ^ 63"
    using sint_lt [of w] by simp
  then have "sint (90 - w) = sint (90 :: 64 word) - sint w"
    using assms by (intro sint_sub_in_range) simp_all
  then show ?thesis
    by simp
qed

lemma wedge_friction_returns:
  "fst (wedge_friction friction to_plot facecolor edgecolor segments p) =
     (F64 (replicate (len (atleast_1d friction)) 90),
      F64 (replicate (len (atleast_1d friction)) 0),
      np_rsub 90 (atleast_1d friction))"
  by (simp add: wedge_friction_def Let_def fmul_90_1)

text \<open>
  C6, as stated: the angle is \<open>90 - f\<close> for every friction \<open>f\<close>. For the integer
  \<open>f = - 9223372036854775808\<close> the subtraction is taken in 64-bit integers and wraps: the
  angle returned is \<open>- 9223372036854775718\<close>, where \<open>90 - f\<close> is \<open>9223372036854775898\<close>.
\<close>

theorem wedge_friction_wrap_counterexample:
  "fst (wedge_friction (Int_num (- 9223372036854775808)) False ''none'' ''r'' 100
      \<lparr>calls = [], entered = []\<rparr>) = (F64 [90], F64 [0], I64 [- 9223372036854775718])
   \<and> sint (- 9223372036854775808 :: 64 word) = - 9223372036854775808
   \<and> sint (- 9223372036854775718 :: 64 word) = - 9223372036854775718
   \<and> 90 - (- 9223372036854775808) = (9223372036854775898 :: int)
   \<and> (- 9223372036854775718 :: int) \<noteq> 9223372036854775898"
  by code_simp

text \<open>
  C6, amended. For every friction, \<^verbatim>\<open>wedge_friction\<close> returns, without raising, the plunge 90
  and the bearing 0 for every element, as doubles, and an angle of the length of the
  friction that is \<open>90 - f\<close> element by element as numpy computes it: for floats the double
  nearest to \<open>90 - f\<close>, which is negative for a double \<open>f\<close> above 90; for integers
  \<open>90 - f\<close> in 64-bit integers, which is \<open>90 - f\<close> exactly for every \<open>f\<close> from
  \<open>- 2 ^ 63 + 91\<close> on, and so negative for \<open>f\<close> above 90.
\<close>

theorem wedge_friction_cone:
  "\<exists>angle.
     fst (wedge_friction friction to_plot facecolor edgecolor segments p) =
       (F64 (replicate (len (atleast_1d friction)) 90),
        F64 (replicate (len (atleast_1d friction)) 0),
        angle)
     \<and> len angle = len (atleast_1d friction)
     \<and> (\<forall>fs. atleast_1d friction = F64 fs \<longrightarrow>
          angle = F64 (map (\<lambda>f. round_double (90 - f)) fs)
          \<and> (\<forall>f \<in> set fs. is_double f \<and> 90 < f \<longrightarrow> round_double (90 - f) < 0))
     \<and> (\<forall>ws. atleast_1d friction = I64 ws \<longrightarrow>
          angle = I64 (map (\<lambda>w. 90 - w) ws)
          \<and> (\<forall>w \<in> set ws. - (2 ^ 63) + 91 \<le> sint w \<longrightarrow> sint (90 - w) = 90 - sint w)
          \<and> (\<forall>w \<in> set ws. 90 < sint w \<longrightarrow> sint (90 - w) < 0))"
proof -
  have len: "len (np_rsub 90 (atleast_1d friction)) = len (atleast_1d friction)"
    by (cases "atleast_1d friction") (simp_all add: np_rsub_def)
  have floats: "np_rsub 90 (atleast_1d friction) = F64 (map (\<lambda>f. round_double (90 - f)) fs)"
    if "atleast_1d friction = F64 fs" for fs
    using that by (simp add: np_rsub_def to_double_90 fsub_def)
  have negative: "round_double (90 - f) < 0" if "is_double f \<and> 90 < f" for f
    using that fsub_90_negative [of f] by (simp add: fsub_def)
  have ints: "np_rsub 90 (atleast_1d friction) = I64 (map (\<lambda>w. 90 - w) ws)"
    if "atleast_1d friction = I64 ws" for ws
    using that by (simp add: np_rsub_def)
  have exact: "sint (90 - w) = 90 - sint w" if "- (2 ^ 63) + 91 \<le> sint w" for w :: "64 word"
    using that by (rule sint_rsub_90)
  have below: "sint (90 - w) < 0" if "90 < sint w" for w :: "64 word"
    using that sint_rsub_90 [of w] sint_ge [of w] by simp
  show ?thesis
    unfolding wedge_friction_returns using len floats negative ints exact below by blast
qed

lemma rsub_90_words:
  "sint (90 - 120 :: 64 word) = - 30" "sint (90 - 30 :: 64 word) = 60"
  "sint (120 :: 64 word) = 120" "sint (30 :: 64 word) = 30"
  "sint (90 - 1152921504606846977 :: 64 word) = - 1152921504606846887"
  by simp_all

theorem wedge_friction_cone_witness:
  "fst (wedge_friction (Arr (F64 [120, 30])) False ''none'' ''r'' 100
      \<lparr>calls = [], entered = []\<rparr>) = (F64 [90, 90], F64 [0, 0], F64 [- 30, 60])
   \<and> is_double 120 \<and> (90::rat) < 120 \<and> round_double (90 - 120) < 0
   \<and> fst (wedge_friction (Arr (I64 [120, 30])) False ''none'' ''r'' 100
      \<lparr>calls = [], entered = []\<rparr>) = (F64 [90, 90], F64 [0, 0], I64 [90 - 120, 90 - 30])
   \<and> - (2 ^ 63) + 91 \<le> sint (120 :: 64 word) \<and> 90 < sint (120 :: 64 word)
   \<and> sint (90 - 120 :: 64 word) = 90 - sint (120 :: 64 word)
   \<and> sint (90 - 120 :: 64 word) = - 30
   \<and> sint (90 - 30 :: 64 word) = 60"
  using wedge_friction_cone [of "Arr (F64 [120, 30])" False "''none''" "''r''" 100
      "\<lparr>calls = [], entered = []\<rparr>"]
    wedge_friction_cone [of "Arr (I64 [120, 30])" False "''none''" "''r''" 100
      "\<lparr>calls = [], entered = []\<rparr>"]
    is_double_120
  by (auto simp add: round_double_minus_30 round_double_60)

text \<open>
  An integer friction beyond \<open>2 ^ 53\<close> is subtracted exactly: \<open>2 ^ 60 + 1\<close> gives
  \<open>- 1152921504606846887\<close>, which is not a double.
\<close>

lemma wedge_friction_large_integer:
  "fst (wedge_friction (Int_num 1152921504606846977) False ''none'' ''r'' 100
      \<lparr>calls = [], entered = []\<rparr>) = (F64 [90], F64 [0], I64 [- 1152921504606846887])
   \<and> sint (- 1152921504606846887 :: 64 word) = - 1152921504606846887
   \<and> \<not> is_double (- 1152921504606846887)"
  by code_simp

subsection \<open>Planar daylight\<close>

lemma planar_daylight_returns:
  "fst (planar_daylight srv strike dip to_plot facecolor edgecolor segments p) =
     (F64 (map (\<lambda>x. fadd 45 (fdiv x 2))
             (as_float (fst (srv (atleast_1d strike) (atleast_1d dip))))),
      snd (srv (atleast_1d strike) (atleast_1d dip)),
      F64 (map (\<lambda>x. fsub (fsub 45 (fdiv x 2)) eps)
             (as_float (fst (srv (atleast_1d strike) (atleast_1d dip))))))"
  by (simp add: planar_daylight_def np_truediv_def Let_def comp_def split: prod.splits)










text \<open>The same on a float: the dip 70.1, whose pole plunge 19.9 is not halved exactly.\<close>

lemma planar_daylight_float:
  "fst (planar_daylight sample_pole (Float_num 45) (Float_num (round_double (701 / 10))) False
      ''none'' ''b'' 100 \<lparr>calls = [], entered = []\<rparr>) =
     (F64 [3866762492562637 / 2 ^ 46], F64 [315], F64 [4932848966713509 / 2 ^ 47])"
  by code_simp

lemma sample_pole_vertical: "sample_pole (I64 [0]) (I64 [90]) = (I64 [0], I64 [270])"
  by code_simp

lemma to_double_0: "to_double 0 = 0"
  by (simp add: to_double_def round_double_def)

lemma planar_angle_at_0: "fsub (fsub 45 (fdiv 0 2)) eps = 6333186975849023 / 2 ^ 47"
  by code_simp

lemma planar_nominal_at_0: "fsub 45 (fdiv 0 2) = 45"
  by code_simp

lemma planar_difference_at_0: "fsub 45 (6333186975849023 / 2 ^ 47) = 140737 / 2 ^ 47"
  by code_simp

text \<open>
  C7, as stated: the angle of \<^verbatim>\<open>planar_daylight\<close> is below \<open>45 - pole_plunge / 2\<close> by
  exactly \<open>1e-9\<close>. For the vertical plane (dip 90, pole plunge 0) the nominal value is 45
  and the angle is the double nearest to \<open>45 - eps\<close>; the two differ by \<open>140737 / 2 ^ 47\<close>,
  which is neither \<open>1e-9\<close> nor the double \<open>eps\<close>, whether the difference is taken exactly
  or in doubles.
\<close>

theorem planar_daylight_epsilon_counterexample:
  "snd (snd (fst (planar_daylight sample_pole (Int_num 0) (Int_num 90) False ''none'' ''b'' 100
       \<lparr>calls = [], entered = []\<rparr>))) = F64 [6333186975849023 / 2 ^ 47]
   \<and> as_float (fst (sample_pole (atleast_1d (Int_num 0)) (atleast_1d (Int_num 90)))) = [0]
   \<and> fsub 45 (fdiv 0 2) = 45
   \<and> 45 - 0 / 2 - 6333186975849023 / 2 ^ 47 \<noteq> (1 / 10 ^ 9 :: rat)
   \<and> fsub (fsub 45 (fdiv 0 2)) (6333186975849023 / 2 ^ 47) \<noteq> eps"
proof -
  have "snd (snd (fst (planar_daylight sample_pole (Int_num 0) (Int_num 90) False ''none'' ''b''
       100 \<lparr>calls = [], entered = []\<rparr>))) = F64 [6333186975849023 / 2 ^ 47]"
    by (simp add: planar_daylight_returns sample_pole_vertical to_double_0 planar_angle_at_0)
  moreover have "45 - 0 / 2 - 6333186975849023 / 2 ^ 47 \<noteq> (1 / 10 ^ 9 :: rat)"
    by simp
  moreover have "fsub (fsub 45 (fdiv 0 2)) (6333186975849023 / 2 ^ 47) \<noteq> eps"
    unfolding planar_nominal_at_0 planar_difference_at_0 eps_value by simp
  ultimately show ?thesis
    by (simp add: sample_pole_vertical to_double_0 planar_nominal_at_0)
qed

text \<open>Outside the range of a plunge the subtraction of \<open>eps\<close> can be lost in rounding.\<close>

lemma planar_angle_not_below:
  "fsub (fsub 45 (fdiv (- (2 ^ 60)) 2)) eps = fsub 45 (fdiv (- (2 ^ 60)) 2)"
  by code_simp

text \<open>
  C7, amended. When every pole plunge lies between 0 and 90, each angle returned by
  \<^verbatim>\<open>planar_daylight\<close> is strictly less than \<open>45 - pole_plunge / 2\<close>, computed in doubles
  as well as exactly, and the difference from the computed value is \<open>1e-9\<close> up to
  rounding: within \<open>1e-14\<close> of it.
\<close>

theorem planar_daylight_angle_below:
  assumes "\<forall>x \<in> set (as_float (fst (srv (atleast_1d strike) (atleast_1d dip)))).
             0 \<le> x \<and> x \<le> 90"
  shows "list_all2
           (\<lambda>pole_plunge angle.
              angle < fsub 45 (fdiv pole_plunge 2)
              \<and> angle < 45 - pole_plunge / 2
              \<and> \<bar>fsub 45 (fdiv pole_plunge 2) - angle - 1 / 10 ^ 9\<bar> \<le> 1 / 10 ^ 14)
           (as_float (fst (srv (atleast_1d strike) (atleast_1d dip))))
           (as_float (snd (snd (fst (planar_daylight srv strike dip to_plot facecolor edgecolor
              segments p)))))"
  using assms planar_angle_bounds
  by (simp add: planar_daylight_returns list_all2_map2 list_all2_same)

theorem planar_daylight_angle_below_witness:
  "as_float (fst (sample_pole (atleast_1d (Int_num 0)) (atleast_1d (Int_num 90)))) = [0]
   \<and> (0::rat) \<le> 0 \<and> (0::rat) \<le> 90
   \<and> list_all2
        (\<lambda>pole_plunge angle.
           angle < fsub 45 (fdiv pole_plunge 2)
           \<and> angle < 45 - pole_plunge / 2
           \<and> \<bar>fsub 45 (fdiv pole_plunge 2) - angle - 1 / 10 ^ 9\<bar> \<le> 1 / 10 ^ 14)
        [0]
        (as_float (snd (snd (fst (planar_daylight sample_pole (Int_num 0) (Int_num 90) False
           ''none'' ''b'' 100 \<lparr>calls = [], entered = []\<rparr>)))))"
proof -
  have pole: "as_float (fst (sample_pole (atleast_1d (Int_num 0)) (atleast_1d (Int_num 90)))) =
      [0]"
    by (simp add: sample_pole_vertical to_double_0)
  then have h: "\<forall>x \<in> set (as_float (fst (sample_pole (atleast_1d (Int_num 0))
                  (atleast_1d (Int_num 90))))). 0 \<le> x \<and> x \<le> 90"
    by simp
  show ?thesis
    using pole planar_daylight_angle_below [of sample_pole "Int_num 0" "Int_num 90" False
        "''none''" "''b''" 100 "\<lparr>calls = [], entered = []\<rparr>"] h
    by simp
qed

subsection \<open>Lengths of the returned arrays\<close>


lemma len_np_rsub [simp]: "len (np_rsub c a) = len a"
  by (cases a) (simp_all add: np_rsub_def)






end
